theory Spec2Isabelle
  imports Complex_Main
begin

section \<open>Python values, strings and exceptions\<close>

text \<open>
  A Python \<open>str\<close> is a sequence of Unicode code points and \<open>len\<close> counts code points,
  so a string is modelled as a list of code points (natural numbers). \<open>lit\<close> embeds an
  ASCII literal; the non-ASCII letters of the Turkish messages in \<open>tools.py\<close> are written
  as their code points.
\<close>

type_synonym pystr = "nat list"

definition lit :: "string \<Rightarrow> pystr" where
  "lit s = map of_char s"

text \<open>
  An exception is its class together with the text \<open>str(e)\<close> gives for it. Every
  exception of the model is a subclass of \<open>Exception\<close>, the ones \<open>except Exception\<close>
  catches.
\<close>

datatype exn_class =
  ValueError | TypeError | IndexError | KeyError | ZeroDivisionError | OverflowError
  | ValidationError | JSONDecodeError | OtherError

datatype exn = Exn (exn_cls: exn_class) (exn_str: pystr)

text \<open>
  The values tools return: integers, floats, strings and mappings with string fields
  (\<open>{"wiki_results": ...}\<close>). A float is represented by the rational number it stands
  for.
\<close>

datatype pyval = PInt int | PFloat rat | PStr pystr | PDict "(pystr \<times> pystr) list"

section \<open>The answer cache (agent.py, load\_memory and save\_memory)\<close>

record entry =
  question :: pystr
  answer :: pystr

text \<open>
  The state of \<open>memory.json\<close>: either \<open>os.path.exists\<close> is false, or the file is
  there, and then the payload is what \<open>open\<close> followed by \<open>json.load\<close> does on it:
  raise (unreadable or malformed content) or return the stored list of entries.
\<close>

datatype disk = NoFile | File "exn + entry list"

definition MAX_MEMORY :: nat where
  "MAX_MEMORY = 1000"

definition load_memory :: "disk \<Rightarrow> exn + entry list" where
  "load_memory d = (case d of NoFile \<Rightarrow> Inr [] | File r \<Rightarrow> r)"

text \<open>
  \<open>memory[-MAX_MEMORY:]\<close> keeps the last \<open>MAX_MEMORY\<close> elements. The write replaces
  the file by the serialised list, which a later \<open>json.load\<close> returns.
\<close>

definition save_memory :: "entry \<Rightarrow> disk \<Rightarrow> exn + disk" where
  "save_memory e d =
     (case load_memory d of
        Inl err \<Rightarrow> Inl err
      | Inr memory \<Rightarrow>
          (let memory1 = memory @ [e];
               memory2 = (if length memory1 > MAX_MEMORY
                          then drop (length memory1 - MAX_MEMORY) memory1
                          else memory1)
           in Inr (File (Inr memory2))))"

section \<open>Arithmetic tools (tools.py)\<close>

text \<open>
  Python's \<open>a / b\<close> on integers is true division: it raises \<open>ZeroDivisionError\<close> for a
  zero divisor, returns the double nearest to the quotient, and raises
  \<open>OverflowError\<close> when that double would not be finite, that is when the quotient
  rounds to \<open>2^1024\<close> or beyond. The float returned is represented by the exact
  quotient: its rounding to the nearest double (to \<open>0.0\<close> for a tiny quotient) is left
  out, only the split between returning a number and raising is modelled.
\<close>

definition py_truediv :: "int \<Rightarrow> int \<Rightarrow> exn + pyval" where
  "py_truediv a b =
     (if b = 0 then Inl (Exn ZeroDivisionError (lit ''division by zero''))
      else if (2 ^ 1024 - 2 ^ 970) * \<bar>b\<bar> \<le> \<bar>a\<bar>
      then Inl (Exn OverflowError (lit ''integer division result too large for a float''))
      else Inr (PFloat (of_int a / of_int b)))"

definition multiply :: "int \<Rightarrow> int \<Rightarrow> exn + pyval" where
  "multiply a b = Inr (PInt (a * b))"

definition add :: "int \<Rightarrow> int \<Rightarrow> exn + pyval" where
  "add a b = Inr (PInt (a + b))"

definition subtract :: "int \<Rightarrow> int \<Rightarrow> exn + pyval" where
  "subtract a b = Inr (PInt (a - b))"

definition divide :: "int \<Rightarrow> int \<Rightarrow> exn + pyval" where
  "divide a b =
     (if b = 0 then Inl (Exn ValueError (lit ''Cannot divide by zero.''))
      else py_truediv a b)"

fun is_number :: "pyval \<Rightarrow> bool" where
  "is_number (PInt _) = True"
| "is_number (PFloat _) = True"
| "is_number _ = False"

fun returns_number :: "exn + pyval \<Rightarrow> bool" where
  "returns_number (Inr v) = is_number v"
| "returns_number (Inl _) = False"

section \<open>The tool dispatcher (agent.py, SimpleToolExecutor)\<close>

text \<open>
  A requested call is the mapping \<open>{'name': ..., 'args': ..., 'id': ...}\<close>. A tool
  has a name and a \<open>run\<close> method that returns a value or raises.
\<close>

record tool_call =
  call_name :: pystr
  call_args :: "(pystr \<times> pyval) list"
  call_id :: pystr

record tool =
  tool_name :: pystr
  run :: "(pystr \<times> pyval) list \<Rightarrow> exn + pyval"

text \<open>
  \<open>{tool.name: tool for tool in tools}\<close>: of two tools with one name the later one stays.
\<close>

definition SimpleToolExecutor :: "tool list \<Rightarrow> (pystr \<rightharpoonup> tool)" where
  "SimpleToolExecutor ts = map_of (rev (map (\<lambda>t. (tool_name t, t)) ts))"

fun invoke :: "(pystr \<rightharpoonup> tool) \<Rightarrow> tool_call list \<Rightarrow> pyval list" where
  "invoke reg [] = []"
| "invoke reg (call # calls) =
     (case reg (call_name call) of
        Some t \<Rightarrow>
          (case run t (call_args call) of
             Inl e \<Rightarrow> PStr (exn_str e)
           | Inr result \<Rightarrow> result)
      | None \<Rightarrow> PStr (lit ''Tool '' @ call_name call @ lit '' not found.''))
     # invoke reg calls"

text \<open>
  The \<open>@tool\<close> decorator on a function of two integers \<open>a\<close> and \<open>b\<close>: \<open>run\<close> binds
  the fields \<open>a\<close> and \<open>b\<close> of the argument mapping and calls the function. This is
  exact for a mapping that gives both fields as integers, the only mappings used
  below. On any other mapping the decorator's validation decides (it converts some
  values to integers and raises on the rest); here such a mapping is answered by a
  validation error, which stands for that part of the library.
\<close>

definition int_tool :: "string \<Rightarrow> (int \<Rightarrow> int \<Rightarrow> exn + pyval) \<Rightarrow> tool" where
  "int_tool n f =
     \<lparr>tool_name = lit n,
      run = (\<lambda>args. case (map_of args (lit ''a''), map_of args (lit ''b'')) of
                       (Some (PInt a), Some (PInt b)) \<Rightarrow> f a b
                     | _ \<Rightarrow> Inl (Exn ValidationError (lit ''validation error'')))\<rparr>"

definition arithmetic_tools :: "tool list" where
  "arithmetic_tools =
     [int_tool ''multiply'' multiply, int_tool ''add'' add,
      int_tool ''subtract'' subtract, int_tool ''divide'' divide]"

section \<open>Messages, turn state and the outside world\<close>

datatype message =
    SystemMessage pystr
  | HumanMessage pystr
  | AIMessage pystr "tool_call list"
  | ToolMessage pystr pystr

fun content :: "message \<Rightarrow> pystr" where
  "content (SystemMessage c) = c"
| "content (HumanMessage c) = c"
| "content (AIMessage c calls) = c"
| "content (ToolMessage c cid) = c"

fun is_human :: "message \<Rightarrow> bool" where
  "is_human (HumanMessage c) = True"
| "is_human m = False"

fun is_tool_result :: "message \<Rightarrow> bool" where
  "is_tool_result (ToolMessage c cid) = True"
| "is_tool_result m = False"

record state =
  messages :: "message list"
  retrieved_answer_found :: "bool option"

text \<open>
  What a turn does to the outside: the cache file, and the log of the calls that leave
  the controller (model invocations, dispatcher invocations, cache writes), in order.
\<close>

datatype event = ModelCall pystr | ToolDispatch "tool_call list" | CacheWrite entry

record world =
  memory_file :: disk
  trace :: "event list"

text \<open>
  The model returns a string, or a mapping (the \<open>isinstance(response, dict)\<close> branch).
\<close>

datatype response = RespStr pystr | RespDict "(pystr \<times> pystr) list"

text \<open>
  What the module takes from outside: the system prompt file, the built-ins
  \<open>str.strip\<close>, \<open>str.lower\<close> and \<open>str\<close> of a mapping,
  \<open>difflib.SequenceMatcher(None, a, b).ratio()\<close> (a double, given by its exact value),
  the model endpoint (which may raise), the registered tools and \<open>json.dumps\<close>.
\<close>

record env =
  system_prompt :: pystr
  strip :: "pystr \<Rightarrow> pystr"
  lower :: "pystr \<Rightarrow> pystr"
  ratio :: "pystr \<Rightarrow> pystr \<Rightarrow> rat"
  llm_invoke :: "pystr \<Rightarrow> exn + response"
  str_of_dict :: "(pystr \<times> pystr) list \<Rightarrow> pystr"
  tools :: "tool list"
  json_dumps :: "pyval \<Rightarrow> pystr"

definition sys_msg :: "env \<Rightarrow> message" where
  "sys_msg E = SystemMessage (system_prompt E)"

text \<open>The double that the literal \<open>0.9\<close> denotes.\<close>

definition threshold :: rat where
  "threshold = 8106479329266893 / 9007199254740992"

definition index_error :: exn where
  "index_error = Exn IndexError (lit ''list index out of range'')"

section \<open>The nodes of the graph (agent.py)\<close>

text \<open>
  \<open>s.strip().lower()\<close>, the test of one entry against the query, and the
  \<open>for entry in memory\<close> loop of the retriever, which stops at the first entry over
  the threshold.
\<close>

definition normalize :: "env \<Rightarrow> pystr \<Rightarrow> pystr" where
  "normalize E s = lower E (strip E s)"

definition over_threshold :: "env \<Rightarrow> pystr \<Rightarrow> entry \<Rightarrow> bool" where
  "over_threshold E query e =
     (let q = normalize E (question e);
          similarity = ratio E q query
      in similarity > threshold)"

fun retriever_loop :: "env \<Rightarrow> pystr \<Rightarrow> entry list \<Rightarrow> entry option" where
  "retriever_loop E query [] = None"
| "retriever_loop E query (e # memory) =
     (if over_threshold E query e then Some e else retriever_loop E query memory)"

definition retriever :: "env \<Rightarrow> state \<Rightarrow> world \<Rightarrow> world \<times> (exn + state)" where
  "retriever E st w =
     (case messages st of
        [] \<Rightarrow> (w, Inl index_error)
      | m # ms \<Rightarrow>
          (let query = normalize E (content (last (messages st)))
           in case load_memory (memory_file w) of
                Inl err \<Rightarrow> (w, Inl err)
              | Inr memory \<Rightarrow>
                  (case retriever_loop E query memory of
                     Some e \<Rightarrow>
                       (w, Inr \<lparr>messages = [sys_msg E, AIMessage (answer e) []],
                                retrieved_answer_found = Some True\<rparr>)
                   | None \<Rightarrow>
                       (w, Inr \<lparr>messages = messages st,
                                retrieved_answer_found = Some False\<rparr>))))"

fun join :: "pystr \<Rightarrow> pystr list \<Rightarrow> pystr" where
  "join sep [] = []"
| "join sep [x] = x"
| "join sep (x # y # ys) = x @ sep @ join sep (y # ys)"

definition prompt_of :: "env \<Rightarrow> state \<Rightarrow> pystr" where
  "prompt_of E st = join [10] (map content (sys_msg E # messages st))"

definition response_text :: "env \<Rightarrow> response \<Rightarrow> pystr" where
  "response_text E r =
     (case r of
        RespDict d \<Rightarrow>
          (case map_of d (lit ''generated_text'') of
             Some v \<Rightarrow> v
           | None \<Rightarrow> str_of_dict E d)
      | RespStr s \<Rightarrow> s)"

definition assistant :: "env \<Rightarrow> state \<Rightarrow> world \<Rightarrow> world \<times> (exn + state)" where
  "assistant E st w =
     (let prompt = prompt_of E st;
          w1 = w\<lparr>trace := trace w @ [ModelCall prompt]\<rparr>
      in case llm_invoke E prompt of
           Inl err \<Rightarrow> (w1, Inl err)
         | Inr r \<Rightarrow>
             (w1, Inr \<lparr>messages = messages st @ [AIMessage (response_text E r) []],
                       retrieved_answer_found = Some False\<rparr>))"

definition tool_messages :: "env \<Rightarrow> tool_call list \<Rightarrow> pyval list \<Rightarrow> message list" where
  "tool_messages E calls results =
     map (\<lambda>(call, result). ToolMessage (json_dumps E result) (call_id call))
         (zip calls results)"

definition tool_executor_node :: "env \<Rightarrow> state \<Rightarrow> world \<Rightarrow> world \<times> (exn + state)" where
  "tool_executor_node E st w =
     (case messages st of
        [] \<Rightarrow> (w, Inl index_error)
      | m # ms \<Rightarrow>
          (case last (messages st) of
             AIMessage c (call # calls) \<Rightarrow>
               (let results = invoke (SimpleToolExecutor (tools E)) (call # calls)
                in (w\<lparr>trace := trace w @ [ToolDispatch (call # calls)]\<rparr>,
                    Inr \<lparr>messages = messages st @ tool_messages E (call # calls) results,
                         retrieved_answer_found = Some False\<rparr>))
           | other \<Rightarrow> (w, Inr st)))"

text \<open>
  \<open>next((m.content for m in reversed(messages) if isinstance(m, HumanMessage)), "")\<close>
\<close>

definition last_human_content :: "message list \<Rightarrow> pystr" where
  "last_human_content ms =
     (case filter is_human (rev ms) of [] \<Rightarrow> [] | m # rest \<Rightarrow> content m)"

definition save_answer_node :: "env \<Rightarrow> state \<Rightarrow> world \<Rightarrow> world \<times> (exn + state)" where
  "save_answer_node E st w =
     (let q = last_human_content (messages st)
      in case messages st of
           [] \<Rightarrow> (w, Inl index_error)
         | m # ms \<Rightarrow>
             (let e = \<lparr>question = q, answer = content (last (messages st))\<rparr>
              in case save_memory e (memory_file w) of
                   Inl err \<Rightarrow> (w, Inl err)
                 | Inr d \<Rightarrow>
                     (w\<lparr>memory_file := d, trace := trace w @ [CacheWrite e]\<rparr>, Inr st)))"

section \<open>Routing and the compiled graph\<close>

datatype route = To_end | To_tool_executor | To_save_answer

definition should_continue :: "state \<Rightarrow> exn + route" where
  "should_continue st =
     (if retrieved_answer_found st = Some True then Inr To_end
      else case messages st of
             [] \<Rightarrow> Inl index_error
           | m # ms \<Rightarrow>
               (case last (messages st) of
                  AIMessage c (call # calls) \<Rightarrow> Inr To_tool_executor
                | other \<Rightarrow> Inr To_save_answer))"

datatype node = Retriever | Assistant | Tool_executor | Save_answer | END

text \<open>
  The conditional edges of \<open>build_graph\<close>. The edge after the retriever is the lambda
  with the mapping \<open>{"assistant", "end"}\<close>; the edge after the assistant is
  \<open>should_continue\<close> with the mapping \<open>{"tool_executor", "save_answer"}\<close>, which has no
  key \<open>"end"\<close>: looking that key up raises \<open>KeyError\<close>.
\<close>

definition after_retriever :: "state \<Rightarrow> exn + node" where
  "after_retriever st =
     Inr (if retrieved_answer_found st = Some True then END else Assistant)"

definition after_assistant :: "state \<Rightarrow> exn + node" where
  "after_assistant st =
     (case should_continue st of
        Inl err \<Rightarrow> Inl err
      | Inr To_tool_executor \<Rightarrow> Inr Tool_executor
      | Inr To_save_answer \<Rightarrow> Inr Save_answer
      | Inr To_end \<Rightarrow> Inl (Exn KeyError ([39] @ lit ''end'' @ [39])))"

text \<open>
  One step of the graph: run the node on the state, replace the state by what the node
  returns, then follow the node's outgoing edge on the new state.
\<close>

definition follow ::
  "(state \<Rightarrow> exn + node) \<Rightarrow> world \<times> (exn + state) \<Rightarrow> world \<times> (exn + node \<times> state)" where
  "follow edge r =
     (case r of
        (w, Inl err) \<Rightarrow> (w, Inl err)
      | (w, Inr st) \<Rightarrow>
          (case edge st of
             Inl err \<Rightarrow> (w, Inl err)
           | Inr n \<Rightarrow> (w, Inr (n, st))))"

fun step :: "env \<Rightarrow> node \<Rightarrow> state \<Rightarrow> world \<Rightarrow> world \<times> (exn + node \<times> state)" where
  "step E Retriever st w = follow after_retriever (retriever E st w)"
| "step E Assistant st w = follow after_assistant (assistant E st w)"
| "step E Tool_executor st w = follow (\<lambda>s. Inr Assistant) (tool_executor_node E st w)"
| "step E Save_answer st w = follow (\<lambda>s. Inr END) (save_answer_node E st w)"
| "step E END st w = (w, Inr (END, st))"

text \<open>
  Running the graph from a node. The fuel bounds the number of node executions; \<open>None\<close>
  is a run that has not reached \<open>END\<close> or an exception within the fuel.
\<close>

fun run_graph ::
  "env \<Rightarrow> nat \<Rightarrow> node \<Rightarrow> state \<Rightarrow> world \<Rightarrow> (world \<times> (exn + state)) option" where
  "run_graph E fuel END st w = Some (w, Inr st)"
| "run_graph E 0 n st w = None"
| "run_graph E (Suc fuel) n st w =
     (case step E n st w of
        (w', Inl err) \<Rightarrow> Some (w', Inl err)
      | (w', Inr (n', st')) \<Rightarrow> run_graph E fuel n' st' w')"

text \<open>
  One turn of the command line loop:
  \<open>app.invoke({"messages": [HumanMessage(content=user_input)]})\<close>, and the text it
  prints, \<open>result['messages'][-1].content\<close>.
\<close>

definition turn :: "env \<Rightarrow> nat \<Rightarrow> pystr \<Rightarrow> world \<Rightarrow> (world \<times> (exn + state)) option" where
  "turn E fuel user_input w =
     run_graph E fuel Retriever
       \<lparr>messages = [HumanMessage user_input], retrieved_answer_found = None\<rparr> w"

definition final_content :: "state \<Rightarrow> exn + pystr" where
  "final_content st =
     (case messages st of [] \<Rightarrow> Inl index_error | m # ms \<Rightarrow> Inr (content (last (messages st))))"

section \<open>The transcript tool (tools.py)\<close>

text \<open>
  \<open>s.split(c)\<close> for a one-character separator: never empty, \<open>"".split(c) == [""]\<close>.
\<close>

fun split_on :: "nat \<Rightarrow> pystr \<Rightarrow> pystr list" where
  "split_on c [] = [[]]"
| "split_on c (x # xs) =
     (if x = c then [] # split_on c xs
      else (case split_on c xs of
              [] \<Rightarrow> [[x]]
            | y # ys \<Rightarrow> (x # y) # ys))"

text \<open>\<open>sub in s\<close> on strings.\<close>

fun contains :: "pystr \<Rightarrow> pystr \<Rightarrow> bool" where
  "contains sub [] = (sub = [])"
| "contains sub (x # xs) = (if take (length sub) (x # xs) = sub then True else contains sub xs)"

text \<open>
  What the tool takes from outside: \<open>urlparse(url).query\<close> (which may raise on a
  malformed URL), \<open>parse_qs\<close>, and \<open>YouTubeTranscriptApi.get_transcript\<close> for the
  languages \<open>['tr', 'en']\<close>, giving the caption texts or raising.
\<close>

record yt_env =
  urlparse_query :: "pystr \<Rightarrow> exn + pystr"
  parse_qs :: "pystr \<Rightarrow> (pystr \<times> pystr list) list"
  api_get_transcript :: "pystr \<Rightarrow> exn + pystr list"

definition get_video_id_from_url :: "yt_env \<Rightarrow> pystr \<Rightarrow> exn + pystr option" where
  "get_video_id_from_url Y url =
     (if contains (lit ''youtu.be'') url
      then Inr (Some (hd (split_on (of_char CHR ''?'') (last (split_on (of_char CHR ''/'') url)))))
      else case urlparse_query Y url of
             Inl err \<Rightarrow> Inl err
           | Inr query \<Rightarrow>
               (case map_of (parse_qs Y query) (lit ''v'') of
                  None \<Rightarrow> Inr None
                | Some [] \<Rightarrow> Inl index_error
                | Some (v # vs) \<Rightarrow> Inr (Some v)))"

definition get_transcript :: "yt_env \<Rightarrow> pystr \<Rightarrow> pystr option" where
  "get_transcript Y video_id =
     (case api_get_transcript Y video_id of
        Inl err \<Rightarrow> None
      | Inr texts \<Rightarrow> Some (join (lit '' '') texts))"

definition invalid_url_message :: pystr where
  "invalid_url_message = lit ''HATA: Ge'' @ [231] @ lit ''ersiz YouTube URL'' @ [39] @ lit ''si.''"

definition truncation_notice :: pystr where
  "truncation_notice =
     [10, 10] @ lit ''[...NOT: Metin '' @ [231] @ lit ''ok uzun oldu'' @ [287] @ lit ''u i''
     @ [231] @ lit ''in k'' @ [305] @ lit ''rp'' @ [305] @ lit ''lm'' @ [305, 351] @ lit ''t''
     @ [305] @ lit ''r...]''"

definition max_chars :: nat where
  "max_chars = 15000"

text \<open>
  \<open>not video_id\<close> holds for \<open>None\<close> and for the empty string. \<open>len(transcript)\<close> on
  \<open>None\<close> raises \<open>TypeError\<close>.
\<close>

definition get_youtube_transcript :: "yt_env \<Rightarrow> pystr \<Rightarrow> exn + pystr" where
  "get_youtube_transcript Y video_url =
     (case get_video_id_from_url Y video_url of
        Inl err \<Rightarrow> Inl err
      | Inr None \<Rightarrow> Inr invalid_url_message
      | Inr (Some []) \<Rightarrow> Inr invalid_url_message
      | Inr (Some (c # cs)) \<Rightarrow>
          (case get_transcript Y (c # cs) of
             None \<Rightarrow>
               Inl (Exn TypeError
                     (lit ''object of type '' @ [39] @ lit ''NoneType'' @ [39] @ lit '' has no len()''))
           | Some transcript \<Rightarrow>
               (if length transcript > max_chars
                then Inr (take max_chars transcript @ truncation_notice)
                else Inr transcript)))"

section \<open>A sample environment\<close>

text \<open>
  Concrete stand-ins for the outside, used to run the definitions on sample inputs:
  ASCII versions of \<open>strip\<close> and \<open>lower\<close>, a ratio that is 1 on equal strings (as
  \<open>SequenceMatcher.ratio\<close> is) and 0 otherwise, a model that answers \<open>4\<close>, and a
  serialiser for strings and one-digit integers. The sample questions that differ
  (\<open>what is 2+2?\<close>, \<open>capital of france?\<close>, \<open>who wrote hamlet?\<close>) are far apart: the
  ratio of \<open>SequenceMatcher\<close> on any two of them is under 0.35, so that they are under
  the threshold for the real ratio as well as for the stand-in.
\<close>

definition ascii_space :: "nat \<Rightarrow> bool" where
  "ascii_space c = (c = 32 \<or> (9 \<le> c \<and> c \<le> 13))"

definition ascii_strip :: "pystr \<Rightarrow> pystr" where
  "ascii_strip s = rev (dropWhile ascii_space (rev (dropWhile ascii_space s)))"

definition ascii_lower :: "pystr \<Rightarrow> pystr" where
  "ascii_lower s = map (\<lambda>c. if 65 \<le> c \<and> c \<le> 90 then c + 32 else c) s"

definition equal_ratio :: "pystr \<Rightarrow> pystr \<Rightarrow> rat" where
  "equal_ratio a b = (if a = b then 1 else 0)"

definition sample_dumps :: "pyval \<Rightarrow> pystr" where
  "sample_dumps v =
     (case v of
        PStr s \<Rightarrow> [34] @ s @ [34]
      | PInt i \<Rightarrow> (if 0 \<le> i \<and> i < 10 then [48 + nat i] else lit ''<int>'')
      | PFloat x \<Rightarrow> lit ''<float>''
      | PDict d \<Rightarrow> lit ''<dict>'')"

definition sample_env :: env where
  "sample_env =
     \<lparr>system_prompt = lit ''You are a helpful assistant.'',
      strip = ascii_strip,
      lower = ascii_lower,
      ratio = equal_ratio,
      llm_invoke = (\<lambda>prompt. Inr (RespStr (lit ''4''))),
      str_of_dict = (\<lambda>d. lit ''<dict>''),
      tools = arithmetic_tools,
      json_dumps = sample_dumps\<rparr>"

definition sample_entry :: entry where
  "sample_entry = \<lparr>question = lit ''What is 2+2?'', answer = lit ''4''\<rparr>"

definition other_entry :: entry where
  "other_entry = \<lparr>question = lit ''Capital of France?'', answer = lit ''Paris''\<rparr>"

definition sample_yt :: yt_env where
  "sample_yt =
     \<lparr>urlparse_query = (\<lambda>url. Inr []),
      parse_qs = (\<lambda>q. []),
      api_get_transcript =
        (\<lambda>v. Inl (Exn OtherError (lit ''Subtitles are disabled for this video'')))\<rparr>"

definition call_add :: tool_call where
  "call_add = \<lparr>call_name = lit ''add'', call_args = [(lit ''a'', PInt 2), (lit ''b'', PInt 2)],
               call_id = lit ''call_1''\<rparr>"

definition call_unknown :: tool_call where
  "call_unknown = \<lparr>call_name = lit ''nope'', call_args = [], call_id = lit ''call_2''\<rparr>"

definition call_divide :: tool_call where
  "call_divide = \<lparr>call_name = lit ''divide'', call_args = [(lit ''a'', PInt 5), (lit ''b'', PInt 0)],
               call_id = lit ''call_3''\<rparr>"


section \<open>Lemmas about the operations\<close>


lemma invoke_length: "length (invoke reg calls) = length calls"
  by (induction calls) simp_all

lemma invoke_append: "invoke reg (xs @ ys) = invoke reg xs @ invoke reg ys"
  by (induction xs) simp_all

lemma invoke_nth_unknown:
  "i < length calls \<Longrightarrow> reg (call_name (calls ! i)) = None \<Longrightarrow>
   invoke reg calls ! i = PStr (lit ''Tool '' @ call_name (calls ! i) @ lit '' not found.'')"
proof (induction calls arbitrary: i)
  case Nil
  then show ?case by simp
next
  case (Cons c cs)
  then show ?case by (cases i) simp_all
qed

lemma invoke_nth_raises:
  "i < length calls \<Longrightarrow> reg (call_name (calls ! i)) = Some t \<Longrightarrow>
   run t (call_args (calls ! i)) = Inl e \<Longrightarrow> invoke reg calls ! i = PStr (exn_str e)"
proof (induction calls arbitrary: i)
  case Nil
  then show ?case by simp
next
  case (Cons c cs)
  then show ?case by (cases i) simp_all
qed

lemma invoke_nth_returns:
  "i < length calls \<Longrightarrow> reg (call_name (calls ! i)) = Some t \<Longrightarrow>
   run t (call_args (calls ! i)) = Inr r \<Longrightarrow> invoke reg calls ! i = r"
proof (induction calls arbitrary: i)
  case Nil
  then show ?case by simp
next
  case (Cons c cs)
  then show ?case by (cases i) simp_all
qed

lemma retriever_loop_first:
  "\<forall>p \<in> set pre. \<not> over_threshold E q p \<Longrightarrow> over_threshold E q e \<Longrightarrow>
   retriever_loop E q (pre @ e # post) = Some e"
  by (induction pre) simp_all

lemma retriever_loop_None:
  "(retriever_loop E q memory = None) = (\<forall>e \<in> set memory. \<not> over_threshold E q e)"
  by (induction memory) simp_all

lemma retriever_loop_Some:
  "retriever_loop E q memory = Some e \<Longrightarrow> e \<in> set memory \<and> over_threshold E q e"
  by (induction memory) (auto split: if_splits)

lemma over_threshold_iff:
  "over_threshold E q e = (threshold < ratio E (normalize E (question e)) q)"
  by (simp add: over_threshold_def Let_def)

lemma retriever_hit:
  assumes "messages st \<noteq> []"
    and "load_memory (memory_file w) = Inr memory"
    and "retriever_loop E (normalize E (content (last (messages st)))) memory = Some e"
  shows "retriever E st w =
           (w, Inr \<lparr>messages = [sys_msg E, AIMessage (answer e) []],
                    retrieved_answer_found = Some True\<rparr>)"
  using assms by (cases "messages st") (simp_all add: retriever_def Let_def)

lemma retriever_miss:
  assumes "messages st \<noteq> []"
    and "load_memory (memory_file w) = Inr memory"
    and "retriever_loop E (normalize E (content (last (messages st)))) memory = None"
  shows "retriever E st w =
           (w, Inr \<lparr>messages = messages st, retrieved_answer_found = Some False\<rparr>)"
  using assms by (cases "messages st") (simp_all add: retriever_def Let_def)

lemma turn_hit:
  assumes "load_memory (memory_file w) = Inr memory"
    and "retriever_loop E (normalize E user_input) memory = Some e"
  shows "turn E (Suc fuel) user_input w =
           Some (w, Inr \<lparr>messages = [sys_msg E, AIMessage (answer e) []],
                          retrieved_answer_found = Some True\<rparr>)"
proof -
  let ?st = "\<lparr>messages = [HumanMessage user_input], retrieved_answer_found = None\<rparr>"
  have "retriever E ?st w =
          (w, Inr \<lparr>messages = [sys_msg E, AIMessage (answer e) []],
                   retrieved_answer_found = Some True\<rparr>)"
    using assms by (intro retriever_hit) simp_all
  then have "step E Retriever ?st w =
          (w, Inr (END, \<lparr>messages = [sys_msg E, AIMessage (answer e) []],
                   retrieved_answer_found = Some True\<rparr>))"
    by (simp add: follow_def after_retriever_def)
  then show ?thesis by (simp add: turn_def)
qed

lemma assistant_returns:
  assumes "llm_invoke E (prompt_of E st) = Inr r"
  shows "assistant E st w =
           (w\<lparr>trace := trace w @ [ModelCall (prompt_of E st)]\<rparr>,
            Inr \<lparr>messages = messages st @ [AIMessage (response_text E r) []],
                 retrieved_answer_found = Some False\<rparr>)"
  using assms by (simp add: assistant_def Let_def)

lemma should_continue_after_text:
  "should_continue \<lparr>messages = ms @ [AIMessage c []], retrieved_answer_found = Some False\<rparr>
     = Inr To_save_answer"
  by (cases ms) (simp_all add: should_continue_def)

lemma step_assistant_returns:
  assumes "llm_invoke E (prompt_of E st) = Inr r"
  shows "step E Assistant st w =
           (w\<lparr>trace := trace w @ [ModelCall (prompt_of E st)]\<rparr>,
            Inr (Save_answer,
                 \<lparr>messages = messages st @ [AIMessage (response_text E r) []],
                  retrieved_answer_found = Some False\<rparr>))"
  by (simp add: assistant_returns [OF assms] follow_def after_assistant_def
      should_continue_after_text)

lemma step_assistant_raises:
  assumes "llm_invoke E (prompt_of E st) = Inl err"
  shows "step E Assistant st w =
           (w\<lparr>trace := trace w @ [ModelCall (prompt_of E st)]\<rparr>, Inl err)"
  using assms by (simp add: assistant_def Let_def follow_def)

lemma step_assistant_never_tools:
  "snd (step E Assistant st w) \<noteq> Inr (Tool_executor, st')"
proof (cases "llm_invoke E (prompt_of E st)")
  case (Inl err)
  then show ?thesis by (simp del: step.simps add: step_assistant_raises)
next
  case (Inr r)
  then show ?thesis by (simp del: step.simps add: step_assistant_returns)
qed


lemma save_memory_loaded:
  "load_memory d = Inr m \<Longrightarrow>
   save_memory e d = Inr (File (Inr (drop (length m + 1 - MAX_MEMORY) (m @ [e]))))"
  by (simp add: save_memory_def Let_def)

lemma turn_miss:
  assumes "load_memory (memory_file w) = Inr memory"
    and "retriever_loop E (normalize E user_input) memory = None"
    and "llm_invoke E (prompt_of E \<lparr>messages = [HumanMessage user_input],
                                     retrieved_answer_found = Some False\<rparr>) = Inr r"
  shows "turn E (Suc (Suc (Suc fuel))) user_input w =
           Some (w\<lparr>memory_file :=
                      File (Inr (drop (length memory + 1 - MAX_MEMORY)
                        (memory @ [\<lparr>question = user_input, answer = response_text E r\<rparr>]))),
                    trace := trace w @
                      [ModelCall (prompt_of E \<lparr>messages = [HumanMessage user_input],
                                               retrieved_answer_found = Some False\<rparr>),
                       CacheWrite \<lparr>question = user_input, answer = response_text E r\<rparr>]\<rparr>,
                 Inr \<lparr>messages = [HumanMessage user_input, AIMessage (response_text E r) []],
                      retrieved_answer_found = Some False\<rparr>)"
proof -
  let ?st0 = "\<lparr>messages = [HumanMessage user_input], retrieved_answer_found = None\<rparr>"
  let ?st1 = "\<lparr>messages = [HumanMessage user_input], retrieved_answer_found = Some False\<rparr>"
  let ?st2 = "\<lparr>messages = [HumanMessage user_input, AIMessage (response_text E r) []],
               retrieved_answer_found = Some False\<rparr>"
  let ?w1 = "w\<lparr>trace := trace w @ [ModelCall (prompt_of E ?st1)]\<rparr>"
  let ?e = "\<lparr>question = user_input, answer = response_text E r\<rparr>"
  have "retriever E ?st0 w = (w, Inr ?st1)"
    using assms(1,2) retriever_miss [of ?st0 w memory E] by simp
  then have s1: "step E Retriever ?st0 w = (w, Inr (Assistant, ?st1))"
    by (simp add: follow_def after_retriever_def)
  have s2: "step E Assistant ?st1 w = (?w1, Inr (Save_answer, ?st2))"
    using step_assistant_returns [OF assms(3), of w] by simp
  have "save_answer_node E ?st2 ?w1 =
          (?w1\<lparr>memory_file := File (Inr (drop (length memory + 1 - MAX_MEMORY) (memory @ [?e]))),
               trace := trace ?w1 @ [CacheWrite ?e]\<rparr>, Inr ?st2)"
    using assms(1)
    by (simp add: save_answer_node_def Let_def last_human_content_def save_memory_loaded)
  then have s3: "step E Save_answer ?st2 ?w1 =
          (?w1\<lparr>memory_file := File (Inr (drop (length memory + 1 - MAX_MEMORY) (memory @ [?e]))),
               trace := trace ?w1 @ [CacheWrite ?e]\<rparr>, Inr (END, ?st2))"
    by (simp add: follow_def)
  show ?thesis
    unfolding turn_def
    by (simp del: step.simps add: s1 s2 s3)
qed


lemma tool_messages_length:
  "length results = length calls \<Longrightarrow> length (tool_messages E calls results) = length calls"
  by (simp add: tool_messages_def)

lemma tool_messages_nth:
  "length results = length calls \<Longrightarrow> i < length calls \<Longrightarrow>
   tool_messages E calls results ! i = ToolMessage (json_dumps E (results ! i)) (call_id (calls ! i))"
  by (simp add: tool_messages_def)

lemma tool_executor_node_calls:
  assumes "messages st \<noteq> []" and "last (messages st) = AIMessage c calls" and "calls \<noteq> []"
  shows "tool_executor_node E st w =
           (w\<lparr>trace := trace w @ [ToolDispatch calls]\<rparr>,
            Inr \<lparr>messages = messages st
                   @ tool_messages E calls (invoke (SimpleToolExecutor (tools E)) calls),
                 retrieved_answer_found = Some False\<rparr>)"
proof -
  obtain m ms where ms: "messages st = m # ms"
    using assms(1) by (cases "messages st") simp_all
  obtain call rest where calls: "calls = call # rest"
    using assms(3) by (cases calls) simp_all
  show ?thesis
    using assms(2) unfolding tool_executor_node_def ms calls
    by (simp add: Let_def)
qed


lemma sample_invoke:
  "invoke (SimpleToolExecutor arithmetic_tools) [call_add, call_unknown, call_divide]
     = [PInt 4, PStr (lit ''Tool nope not found.''), PStr (lit ''Cannot divide by zero.'')]"
  by (simp add: SimpleToolExecutor_def arithmetic_tools_def int_tool_def call_add_def
      call_unknown_def call_divide_def add_def divide_def lit_def)

lemma split_on_nonempty: "split_on c s \<noteq> []"
  by (induction s) (auto split: list.splits)

lemma transcript_invalid_url:
  "get_video_id_from_url Y url = Inr None \<or> get_video_id_from_url Y url = Inr (Some [])
   \<Longrightarrow> get_youtube_transcript Y url = Inr invalid_url_message"
  by (auto simp: get_youtube_transcript_def)

lemma transcript_truncated:
  "get_video_id_from_url Y url = Inr (Some (c # cs)) \<Longrightarrow>
   api_get_transcript Y (c # cs) = Inr texts \<Longrightarrow>
   get_youtube_transcript Y url =
     (if max_chars < length (join (lit '' '') texts)
      then Inr (take max_chars (join (lit '' '') texts) @ truncation_notice)
      else Inr (join (lit '' '') texts))"
  by (simp add: get_youtube_transcript_def get_transcript_def)

lemma transcript_fetch_failure:
  "get_video_id_from_url Y url = Inr (Some (c # cs)) \<Longrightarrow>
   api_get_transcript Y (c # cs) = Inl err \<Longrightarrow>
   get_youtube_transcript Y url =
     Inl (Exn TypeError
           (lit ''object of type '' @ [39] @ lit ''NoneType'' @ [39] @ lit '' has no len()''))"
  by (simp add: get_youtube_transcript_def get_transcript_def)


lemma assistant_flag_False:
  "assistant E st0 w = (w', Inr st') \<Longrightarrow>
   retrieved_answer_found st' = Some False \<and> (\<exists>c. last (messages st') = AIMessage c [])"
  by (cases "llm_invoke E (prompt_of E st0)") (auto simp: assistant_def Let_def)

lemma step_assistant_edge:
  assumes "step E Assistant st0 w = (w', Inr (n, st'))"
  shows "retrieved_answer_found st' = Some False
       \<and> (\<exists>c. last (messages st') = AIMessage c []) \<and> n = Save_answer"
proof (cases "llm_invoke E (prompt_of E st0)")
  case (Inl err)
  then show ?thesis
    using assms step_assistant_raises [OF Inl, of w] by (simp del: step.simps)
next
  case (Inr r)
  then show ?thesis
    using assms step_assistant_returns [OF Inr, of w] by (auto simp del: step.simps)
qed


section \<open>The claims\<close>

text \<open>
  C1 (cache hit shortcut). Let the store load as a list in which \<open>e\<close> is the first entry
  whose trimmed and lowercased question has a similarity ratio with the trimmed and
  lowercased user query above the threshold 0.9 (no entry before it has). Then the
  turn returns, the content of the last message of the returned conversation is the
  answer of \<open>e\<close>, and the outside is as before: no model invocation, no dispatcher
  invocation and no cache write was logged, and the cache file is unchanged.
\<close>

theorem cache_hit_shortcut:
  assumes "load_memory (memory_file w) = Inr (pre @ e # post)"
    and "\<forall>p \<in> set pre. \<not> threshold < ratio E (normalize E (question p)) (normalize E user_input)"
    and "threshold < ratio E (normalize E (question e)) (normalize E user_input)"
    and "0 < fuel"
  shows "\<exists>st. turn E fuel user_input w = Some (w, Inr st)
              \<and> final_content st = Inr (answer e)"
proof -
  have "retriever_loop E (normalize E user_input) (pre @ e # post) = Some e"
    using assms(2,3) by (intro retriever_loop_first) (simp_all add: over_threshold_iff)
  moreover obtain k where "fuel = Suc k"
    using assms(4) by (cases fuel) simp_all
  ultimately have "turn E fuel user_input w =
      Some (w, Inr \<lparr>messages = [sys_msg E, AIMessage (answer e) []],
                     retrieved_answer_found = Some True\<rparr>)"
    using assms(1) turn_hit by simp
  then show ?thesis by (simp add: final_content_def)
qed

theorem cache_hit_shortcut_witness:
  "\<exists>st. turn sample_env 1 (lit '' what is 2+2? '')
          \<lparr>memory_file = File (Inr [other_entry, sample_entry]), trace = []\<rparr>
        = Some (\<lparr>memory_file = File (Inr [other_entry, sample_entry]), trace = []\<rparr>, Inr st)
      \<and> final_content st = Inr (lit ''4'')"
proof -
  let ?w = "\<lparr>memory_file = File (Inr [other_entry, sample_entry]), trace = []\<rparr>"
  have h1: "load_memory (memory_file ?w) = Inr ([other_entry] @ sample_entry # [])"
    by (simp add: load_memory_def)
  have h2: "\<forall>p \<in> set [other_entry]. \<not> threshold
      < ratio sample_env (normalize sample_env (question p))
          (normalize sample_env (lit '' what is 2+2? ''))"
    by (simp add: sample_env_def other_entry_def normalize_def ascii_strip_def ascii_lower_def
        ascii_space_def equal_ratio_def threshold_def lit_def)
  have h3: "threshold < ratio sample_env (normalize sample_env (question sample_entry))
          (normalize sample_env (lit '' what is 2+2? ''))"
    by (simp add: sample_env_def sample_entry_def normalize_def ascii_strip_def ascii_lower_def
        ascii_space_def equal_ratio_def threshold_def lit_def)
  show ?thesis
    using cache_hit_shortcut [OF h1 h2 h3, of 1] by (simp add: sample_entry_def)
qed

text \<open>
  C2 (loop transitions). \<open>should_continue\<close> is the edge after the assistant node only,
  and every state the assistant node returns has the cached-answer flag \<open>False\<close> and
  ends with an Assistant message. For every state whose last message is an Assistant
  message, taken with the flag as it is on that edge: if the message carries no
  pending tool calls, \<open>should_continue\<close> answers \<open>save_answer\<close> and the controller goes
  directly to SAVE; if it carries pending calls, the controller goes to TOOL\_EXEC.
  For every state whose last message is an Assistant message with \<open>N \<ge> 1\<close> pending
  calls, the tool executor node invokes the dispatcher once and appends exactly \<open>N\<close>
  ToolResult messages to the conversation, in call order, the \<open>i\<close>-th holding the
  serialised \<open>i\<close>-th result and the id of the \<open>i\<close>-th call, and the controller goes
  back to MODEL\_CALL.
\<close>

theorem loop_transitions:
  assumes "messages st \<noteq> []" and "last (messages st) = AIMessage c calls"
  shows "(calls = [] \<longrightarrow>
            should_continue (st\<lparr>retrieved_answer_found := Some False\<rparr>) = Inr To_save_answer
          \<and> after_assistant (st\<lparr>retrieved_answer_found := Some False\<rparr>) = Inr Save_answer)
       \<and> (calls \<noteq> [] \<longrightarrow>
            should_continue (st\<lparr>retrieved_answer_found := Some False\<rparr>) = Inr To_tool_executor
          \<and> after_assistant (st\<lparr>retrieved_answer_found := Some False\<rparr>) = Inr Tool_executor)
       \<and> (calls \<noteq> [] \<longrightarrow>
            (\<exists>tms. step E Tool_executor st w =
                     (w\<lparr>trace := trace w @ [ToolDispatch calls]\<rparr>,
                      Inr (Assistant, \<lparr>messages = messages st @ tms,
                                       retrieved_answer_found = Some False\<rparr>))
                 \<and> length tms = length calls
                 \<and> list_all is_tool_result tms
                 \<and> (\<forall>i < length calls.
                       tms ! i = ToolMessage
                         (json_dumps E (invoke (SimpleToolExecutor (tools E)) calls ! i))
                         (call_id (calls ! i)))))
       \<and> (\<forall>st0 w0 w' n st'. step E Assistant st0 w0 = (w', Inr (n, st')) \<longrightarrow>
            retrieved_answer_found st' = Some False
          \<and> (\<exists>c'. last (messages st') = AIMessage c' []) \<and> n = Save_answer)"
proof -
  obtain m ms where ms: "messages st = m # ms"
    using assms(1) by (cases "messages st") simp_all
  have a: "calls = [] \<longrightarrow>
            should_continue (st\<lparr>retrieved_answer_found := Some False\<rparr>) = Inr To_save_answer
          \<and> after_assistant (st\<lparr>retrieved_answer_found := Some False\<rparr>) = Inr Save_answer"
    using assms(2) unfolding after_assistant_def should_continue_def by (simp add: ms)
  have b: "calls \<noteq> [] \<longrightarrow>
            should_continue (st\<lparr>retrieved_answer_found := Some False\<rparr>) = Inr To_tool_executor
          \<and> after_assistant (st\<lparr>retrieved_answer_found := Some False\<rparr>) = Inr Tool_executor"
    using assms(2) unfolding after_assistant_def should_continue_def
    by (cases calls) (simp_all add: ms)
  have c: "calls \<noteq> [] \<longrightarrow>
            (\<exists>tms. step E Tool_executor st w =
                     (w\<lparr>trace := trace w @ [ToolDispatch calls]\<rparr>,
                      Inr (Assistant, \<lparr>messages = messages st @ tms,
                                       retrieved_answer_found = Some False\<rparr>))
                 \<and> length tms = length calls
                 \<and> list_all is_tool_result tms
                 \<and> (\<forall>i < length calls.
                       tms ! i = ToolMessage
                         (json_dumps E (invoke (SimpleToolExecutor (tools E)) calls ! i))
                         (call_id (calls ! i))))"
  proof
    assume ne: "calls \<noteq> []"
    let ?results = "invoke (SimpleToolExecutor (tools E)) calls"
    let ?tms = "tool_messages E calls ?results"
    have len: "length ?results = length calls" by (rule invoke_length)
    have "step E Tool_executor st w =
            (w\<lparr>trace := trace w @ [ToolDispatch calls]\<rparr>,
             Inr (Assistant, \<lparr>messages = messages st @ ?tms,
                              retrieved_answer_found = Some False\<rparr>))"
      by (simp add: tool_executor_node_calls [OF assms ne] follow_def)
    moreover have "length ?tms = length calls"
      using len by (rule tool_messages_length)
    moreover have "list_all is_tool_result ?tms"
      by (simp add: tool_messages_def list_all_iff split_beta)
    moreover have "\<forall>i < length calls.
        ?tms ! i = ToolMessage (json_dumps E (?results ! i)) (call_id (calls ! i))"
      using len by (simp add: tool_messages_nth)
    ultimately show "\<exists>tms. step E Tool_executor st w =
                     (w\<lparr>trace := trace w @ [ToolDispatch calls]\<rparr>,
                      Inr (Assistant, \<lparr>messages = messages st @ tms,
                                       retrieved_answer_found = Some False\<rparr>))
                 \<and> length tms = length calls
                 \<and> list_all is_tool_result tms
                 \<and> (\<forall>i < length calls.
                       tms ! i = ToolMessage
                         (json_dumps E (invoke (SimpleToolExecutor (tools E)) calls ! i))
                         (call_id (calls ! i)))"
      by (intro exI conjI)
  qed
  have d: "\<forall>st0 w0 w' n st'. step E Assistant st0 w0 = (w', Inr (n, st')) \<longrightarrow>
            retrieved_answer_found st' = Some False
          \<and> (\<exists>c'. last (messages st') = AIMessage c' []) \<and> n = Save_answer"
    by (intro allI impI) (rule step_assistant_edge)
  from a b c d show ?thesis by (intro conjI)
qed

theorem loop_transitions_witness:
  "should_continue \<lparr>messages = [HumanMessage (lit ''hi''), AIMessage (lit ''hello'') []],
                    retrieved_answer_found = Some False\<rparr> = Inr To_save_answer
   \<and> (\<exists>tms. step sample_env Tool_executor
          \<lparr>messages = [HumanMessage (lit ''q''), AIMessage [] [call_add, call_divide]],
           retrieved_answer_found = Some False\<rparr> \<lparr>memory_file = NoFile, trace = []\<rparr>
        = (\<lparr>memory_file = NoFile, trace = [ToolDispatch [call_add, call_divide]]\<rparr>,
           Inr (Assistant,
             \<lparr>messages = [HumanMessage (lit ''q''), AIMessage [] [call_add, call_divide]] @ tms,
              retrieved_answer_found = Some False\<rparr>))
       \<and> length tms = 2)"
proof -
  let ?s1 = "\<lparr>messages = [HumanMessage (lit ''hi''), AIMessage (lit ''hello'') []],
                    retrieved_answer_found = Some False\<rparr>"
  let ?s2 = "\<lparr>messages = [HumanMessage (lit ''q''), AIMessage [] [call_add, call_divide]],
           retrieved_answer_found = Some False\<rparr>"
  let ?w = "\<lparr>memory_file = NoFile, trace = []\<rparr>"
  have n1: "messages ?s1 \<noteq> []" and l1: "last (messages ?s1) = AIMessage (lit ''hello'') []"
    by simp_all
  have n2: "messages ?s2 \<noteq> []"
    and l2: "last (messages ?s2) = AIMessage [] [call_add, call_divide]"
    by simp_all
  have f1: "([]::tool_call list) = []"
    by simp
  have ne: "[call_add, call_divide] \<noteq> []"
    by simp
  have u: "?s1\<lparr>retrieved_answer_found := Some False\<rparr> = ?s1"
    by simp
  have "should_continue (?s1\<lparr>retrieved_answer_found := Some False\<rparr>) = Inr To_save_answer"
    using conjunct1 [OF loop_transitions [OF n1 l1, of sample_env ?w], THEN mp, OF f1]
    by (rule conjunct1)
  then have "should_continue ?s1 = Inr To_save_answer"
    unfolding u .
  moreover
  from conjunct1 [OF conjunct2 [OF conjunct2 [OF loop_transitions [OF n2 l2, of sample_env ?w]]],
      THEN mp, OF ne]
  obtain tms where a: "step sample_env Tool_executor ?s2 ?w =
        (?w\<lparr>trace := trace ?w @ [ToolDispatch [call_add, call_divide]]\<rparr>,
         Inr (Assistant, \<lparr>messages = messages ?s2 @ tms, retrieved_answer_found = Some False\<rparr>))"
    and b: "length tms = length [call_add, call_divide]"
    by (elim exE conjE)
  have "\<exists>tms. step sample_env Tool_executor ?s2 ?w
        = (\<lparr>memory_file = NoFile, trace = [ToolDispatch [call_add, call_divide]]\<rparr>,
           Inr (Assistant,
             \<lparr>messages = [HumanMessage (lit ''q''), AIMessage [] [call_add, call_divide]] @ tms,
              retrieved_answer_found = Some False\<rparr>))
       \<and> length tms = 2"
  proof (intro exI conjI)
    show "step sample_env Tool_executor ?s2 ?w
        = (\<lparr>memory_file = NoFile, trace = [ToolDispatch [call_add, call_divide]]\<rparr>,
           Inr (Assistant,
             \<lparr>messages = [HumanMessage (lit ''q''), AIMessage [] [call_add, call_divide]] @ tms,
              retrieved_answer_found = Some False\<rparr>))"
      unfolding a by simp
    show "length tms = 2"
      unfolding b by simp
  qed
  ultimately show ?thesis by (rule conjI)
qed

text \<open>
  C3 (tool batch isolation). For every registry and every list of calls the dispatcher
  returns as many results as there are calls, the \<open>i\<close>-th result belonging to the
  \<open>i\<close>-th call: the "not found" placeholder when the name of the call is not
  registered, the string of the exception when the tool raises, and the value of the
  tool when it returns. Each result depends on its own call only, so that no failure
  keeps another call from being executed.
\<close>

theorem dispatcher_isolation:
  "length (invoke reg calls) = length calls
   \<and> (\<forall>i < length calls.
        (reg (call_name (calls ! i)) = None \<longrightarrow>
           invoke reg calls ! i
             = PStr (lit ''Tool '' @ call_name (calls ! i) @ lit '' not found.''))
      \<and> (\<forall>t e. reg (call_name (calls ! i)) = Some t \<and> run t (call_args (calls ! i)) = Inl e
             \<longrightarrow> invoke reg calls ! i = PStr (exn_str e))
      \<and> (\<forall>t r. reg (call_name (calls ! i)) = Some t \<and> run t (call_args (calls ! i)) = Inr r
             \<longrightarrow> invoke reg calls ! i = r))"
proof (intro conjI allI impI)
  show "length (invoke reg calls) = length calls"
    by (rule invoke_length)
next
  fix i
  assume "i < length calls" and "reg (call_name (calls ! i)) = None"
  then show "invoke reg calls ! i
      = PStr (lit ''Tool '' @ call_name (calls ! i) @ lit '' not found.'')"
    by (rule invoke_nth_unknown)
next
  fix i t e
  assume "i < length calls"
    and "reg (call_name (calls ! i)) = Some t \<and> run t (call_args (calls ! i)) = Inl e"
  then show "invoke reg calls ! i = PStr (exn_str e)"
    using invoke_nth_raises [of i calls reg t e] by (elim conjE) (rule invoke_nth_raises)
next
  fix i t r
  assume "i < length calls"
    and "reg (call_name (calls ! i)) = Some t \<and> run t (call_args (calls ! i)) = Inr r"
  then show "invoke reg calls ! i = r"
    by (elim conjE) (rule invoke_nth_returns)
qed

theorem dispatcher_isolation_witness:
  "length (invoke (SimpleToolExecutor arithmetic_tools) [call_add, call_unknown, call_divide]) = 3
   \<and> invoke (SimpleToolExecutor arithmetic_tools) [call_add, call_unknown, call_divide] ! 1
       = PStr (lit ''Tool nope not found.'')
   \<and> invoke (SimpleToolExecutor arithmetic_tools) [call_add, call_unknown, call_divide] ! 2
       = PStr (lit ''Cannot divide by zero.'')
   \<and> invoke (SimpleToolExecutor arithmetic_tools) [call_add, call_unknown, call_divide] ! 0
       = PInt 4"
proof -
  let ?reg = "SimpleToolExecutor arithmetic_tools"
  let ?calls = "[call_add, call_unknown, call_divide]"
  have r0: "?reg (call_name (?calls ! 0)) = Some (int_tool ''add'' add)"
    by (simp add: SimpleToolExecutor_def arithmetic_tools_def int_tool_def call_add_def lit_def)
  have v0: "run (int_tool ''add'' add) (call_args (?calls ! 0)) = Inr (PInt 4)"
    by (simp add: int_tool_def call_add_def add_def lit_def)
  have r1: "?reg (call_name (?calls ! 1)) = None"
    by (simp add: SimpleToolExecutor_def arithmetic_tools_def int_tool_def call_unknown_def
        lit_def)
  have r2: "?reg (call_name (?calls ! 2)) = Some (int_tool ''divide'' divide)"
    by (simp add: SimpleToolExecutor_def arithmetic_tools_def int_tool_def call_divide_def
        lit_def)
  have v2: "run (int_tool ''divide'' divide) (call_args (?calls ! 2))
              = Inl (Exn ValueError (lit ''Cannot divide by zero.''))"
    by (simp add: int_tool_def call_divide_def divide_def lit_def)
  have n1: "call_name (?calls ! 1) = lit ''nope''"
    by (simp add: call_unknown_def)
  from dispatcher_isolation [of ?reg ?calls]
  have "length (invoke ?reg ?calls) = 3"
    and "invoke ?reg ?calls ! 1 = PStr (lit ''Tool '' @ call_name (?calls ! 1) @ lit '' not found.'')"
    and "invoke ?reg ?calls ! 2 = PStr (lit ''Cannot divide by zero.'')"
    and "invoke ?reg ?calls ! 0 = PInt 4"
    using r0 v0 r1 r2 v2 by (simp_all del: invoke.simps)
  then show ?thesis
    unfolding n1 by (simp del: invoke.simps add: lit_def)
qed

text \<open>
  C4 (cache bound). Let the store load as the list \<open>m\<close>. Appending \<open>e\<close> to a store of
  exactly 1000 entries writes \<open>tl m @ [e]\<close>: 1000 entries, the new entry last, the
  oldest entry (the head of \<open>m\<close>) dropped. Whenever the append makes the size exceed
  1000, what is written is the list with the new entry at the end and as many entries
  dropped from the front as brings the size to 1000; otherwise nothing is dropped.
\<close>

theorem cache_bound:
  assumes "load_memory d = Inr m"
  shows "(length m = 1000 \<longrightarrow>
            save_memory e d = Inr (File (Inr (tl m @ [e])))
          \<and> length (tl m @ [e]) = 1000 \<and> last (tl m @ [e]) = e)
       \<and> (1000 < length m + 1 \<longrightarrow>
            (\<exists>m'. save_memory e d = Inr (File (Inr m'))
                \<and> m' = drop (length m + 1 - 1000) (m @ [e])
                \<and> length m' = 1000 \<and> last m' = e))
       \<and> (length m + 1 \<le> 1000 \<longrightarrow> save_memory e d = Inr (File (Inr (m @ [e]))))"
proof (intro conjI impI)
  assume len: "length m = 1000"
  then have "m \<noteq> []" by auto
  then have "drop (length m + 1 - MAX_MEMORY) (m @ [e]) = tl m @ [e]"
    using len by (cases m) (simp_all add: MAX_MEMORY_def)
  then show "save_memory e d = Inr (File (Inr (tl m @ [e])))"
    using assms by (simp add: save_memory_loaded)
  show "length (tl m @ [e]) = 1000" using len by simp
  show "last (tl m @ [e]) = e" by simp
next
  assume big: "1000 < length m + 1"
  show "\<exists>m'. save_memory e d = Inr (File (Inr m'))
                \<and> m' = drop (length m + 1 - 1000) (m @ [e])
                \<and> length m' = 1000 \<and> last m' = e"
  proof (intro exI conjI)
    show "save_memory e d = Inr (File (Inr (drop (length m + 1 - 1000) (m @ [e]))))"
      using assms by (simp add: save_memory_loaded MAX_MEMORY_def)
    show "drop (length m + 1 - 1000) (m @ [e]) = drop (length m + 1 - 1000) (m @ [e])"
      by (rule refl)
    show "length (drop (length m + 1 - 1000) (m @ [e])) = 1000"
      using big by simp
    show "last (drop (length m + 1 - 1000) (m @ [e])) = e"
      using big by (simp add: last_drop)
  qed
next
  assume "length m + 1 \<le> 1000"
  then show "save_memory e d = Inr (File (Inr (m @ [e])))"
    using assms by (simp add: save_memory_loaded MAX_MEMORY_def)
qed

theorem cache_bound_witness:
  "save_memory sample_entry (File (Inr (other_entry # replicate 999 sample_entry)))
     = Inr (File (Inr (replicate 999 sample_entry @ [sample_entry])))
   \<and> length (replicate 999 sample_entry @ [sample_entry]) = 1000
   \<and> save_memory sample_entry NoFile = Inr (File (Inr [sample_entry]))"
proof -
  have h: "load_memory (File (Inr (other_entry # replicate 999 sample_entry)))
             = Inr (other_entry # replicate 999 sample_entry)"
    by (simp add: load_memory_def)
  have l: "length (other_entry # replicate 999 sample_entry) = 1000"
    by simp
  have h0: "load_memory NoFile = Inr []"
    by (simp add: load_memory_def)
  have "save_memory sample_entry (File (Inr (other_entry # replicate 999 sample_entry)))
     = Inr (File (Inr (replicate 999 sample_entry @ [sample_entry])))"
    using conjunct1 [OF cache_bound [OF h, of sample_entry], THEN mp, OF l] by simp
  moreover have "save_memory sample_entry NoFile = Inr (File (Inr [sample_entry]))"
    using conjunct2 [OF conjunct2 [OF cache_bound [OF h0, of sample_entry]]] by simp
  ultimately show ?thesis by simp
qed


text \<open>
  C5 (transcript tool), the failing input. For the short link
  \<open>https://youtu.be/abc123?t=5\<close> the identifier \<open>abc123\<close> is extracted; when the
  transcript fetch fails, \<open>_get_transcript\<close> returns \<open>None\<close> and
  \<open>get_youtube_transcript\<close> raises \<open>TypeError\<close> from \<open>len(transcript)\<close> instead of
  returning an error string.
\<close>

theorem transcript_fetch_failure_raises:
  "get_video_id_from_url sample_yt (lit ''https://youtu.be/abc123?t=5'') = Inr (Some (lit ''abc123''))
   \<and> get_transcript sample_yt (lit ''abc123'') = None
   \<and> get_youtube_transcript sample_yt (lit ''https://youtu.be/abc123?t=5'')
       = Inl (Exn TypeError
               (lit ''object of type '' @ [39] @ lit ''NoneType'' @ [39] @ lit '' has no len()''))"
  by (simp add: get_youtube_transcript_def get_transcript_def get_video_id_from_url_def
      sample_yt_def lit_def)


text \<open>
  C6 (cache read), as amended. A missing store file reads as the empty list, and the
  retriever over a missing file answers as over a file holding the empty list. A
  store file whose read raises makes \<open>load_memory\<close> raise that error, and the retriever
  on a non-empty conversation raises it too.
\<close>

theorem cache_read_soft_fail:
  "load_memory NoFile = Inr []
   \<and> retriever E st (w\<lparr>memory_file := NoFile\<rparr>)
       = (w\<lparr>memory_file := NoFile\<rparr>,
          snd (retriever E st (w\<lparr>memory_file := File (Inr [])\<rparr>)))
   \<and> load_memory (File (Inl err)) = Inl err
   \<and> retriever E (st\<lparr>messages := m # ms\<rparr>) (w\<lparr>memory_file := File (Inl err)\<rparr>)
       = (w\<lparr>memory_file := File (Inl err)\<rparr>, Inl err)"
  by (cases "messages st") (simp_all add: load_memory_def retriever_def Let_def)

theorem cache_read_counterexample:
  "load_memory (File (Inl (Exn JSONDecodeError (lit ''Expecting value: line 1 column 1 (char 0)''))))
     = Inl (Exn JSONDecodeError (lit ''Expecting value: line 1 column 1 (char 0)''))
   \<and> snd (retriever sample_env
        \<lparr>messages = [HumanMessage (lit ''What is 2+2?'')], retrieved_answer_found = None\<rparr>
        \<lparr>memory_file =
           File (Inl (Exn JSONDecodeError (lit ''Expecting value: line 1 column 1 (char 0)''))),
         trace = []\<rparr>)
     = Inl (Exn JSONDecodeError (lit ''Expecting value: line 1 column 1 (char 0)''))
   \<and> snd (retriever sample_env
        \<lparr>messages = [HumanMessage (lit ''What is 2+2?'')], retrieved_answer_found = None\<rparr>
        \<lparr>memory_file = File (Inr []), trace = []\<rparr>)
     = Inr \<lparr>messages = [HumanMessage (lit ''What is 2+2?'')],
            retrieved_answer_found = Some False\<rparr>"
  by (simp add: load_memory_def retriever_def Let_def)


text \<open>
  C7 (divide), as amended. For a zero divisor \<open>divide\<close> raises \<open>ValueError\<close> with the
  text "Cannot divide by zero." and returns no number; the dispatcher turns that
  into the string result. For a nonzero divisor \<open>divide\<close> returns the float quotient
  when the quotient is in the range of a double, and raises \<open>OverflowError\<close> when it
  is not.
\<close>

theorem divide_domain_error:
  "(b = 0 \<longrightarrow> divide a b = Inl (Exn ValueError (lit ''Cannot divide by zero.''))
              \<and> \<not> returns_number (divide a b))
   \<and> (b \<noteq> 0 \<and> \<bar>a\<bar> < (2 ^ 1024 - 2 ^ 970) * \<bar>b\<bar> \<longrightarrow>
         divide a b = Inr (PFloat (of_int a / of_int b)) \<and> returns_number (divide a b))
   \<and> (b \<noteq> 0 \<and> (2 ^ 1024 - 2 ^ 970) * \<bar>b\<bar> \<le> \<bar>a\<bar> \<longrightarrow>
         divide a b
           = Inl (Exn OverflowError (lit ''integer division result too large for a float'')))
   \<and> invoke (SimpleToolExecutor arithmetic_tools)
        [\<lparr>call_name = lit ''divide'', call_args = [(lit ''a'', PInt a), (lit ''b'', PInt 0)],
          call_id = cid\<rparr>]
       = [PStr (lit ''Cannot divide by zero.'')]"
proof (intro conjI impI)
  show "invoke (SimpleToolExecutor arithmetic_tools)
        [\<lparr>call_name = lit ''divide'', call_args = [(lit ''a'', PInt a), (lit ''b'', PInt 0)],
          call_id = cid\<rparr>]
       = [PStr (lit ''Cannot divide by zero.'')]"
    by (simp add: SimpleToolExecutor_def arithmetic_tools_def int_tool_def divide_def lit_def)
qed (simp_all add: divide_def py_truediv_def)

theorem divide_domain_error_witness:
  "divide 5 0 = Inl (Exn ValueError (lit ''Cannot divide by zero.''))
   \<and> \<not> returns_number (divide 5 0)
   \<and> divide 6 3 = Inr (PFloat 2)"
proof -
  have "(0::int) = 0" by simp
  from conjunct1 [OF divide_domain_error [of 0 5], THEN mp, OF this]
  have a: "divide 5 0 = Inl (Exn ValueError (lit ''Cannot divide by zero.''))
              \<and> \<not> returns_number (divide 5 0)" .
  have "(3::int) \<noteq> 0 \<and> \<bar>6::int\<bar> < (2 ^ 1024 - 2 ^ 970) * \<bar>3\<bar>" by simp
  from conjunct1 [OF conjunct2 [OF divide_domain_error [of 3 6]], THEN mp, OF this]
  have "divide 6 3 = Inr (PFloat 2)" by simp
  with a show ?thesis by simp
qed

theorem divide_counterexample:
  "(1::int) \<noteq> 0 \<and> \<not> returns_number (divide (2 ^ 1024) 1)
   \<and> divide (2 ^ 1024) 1
       = Inl (Exn OverflowError (lit ''integer division result too large for a float''))"
  by (simp add: divide_def py_truediv_def)

text \<open>
  C8 (no append after a hit). Take any run of a turn that ends, with a value or with an
  exception, on a store that loads as \<open>memory\<close>. If some stored entry's normalised
  question has a ratio with the normalised query above the threshold, the outside is
  unchanged by the turn: no cache write (and no other call) is logged and the cache
  file is as before. So whenever the turn changes the outside, in particular when it
  appends to the cache, no stored entry was above the threshold.
\<close>

theorem no_append_after_hit:
  assumes "turn E fuel user_input w = Some (w', r)"
    and "load_memory (memory_file w) = Inr memory"
  shows "((\<exists>e \<in> set memory.
              threshold < ratio E (normalize E (question e)) (normalize E user_input))
            \<longrightarrow> w' = w)
       \<and> (w' \<noteq> w \<longrightarrow>
            (\<forall>e \<in> set memory.
               \<not> threshold < ratio E (normalize E (question e)) (normalize E user_input)))"
proof -
  have hit: "w' = w"
    if "\<exists>e \<in> set memory. threshold < ratio E (normalize E (question e)) (normalize E user_input)"
  proof -
    from that have "retriever_loop E (normalize E user_input) memory \<noteq> None"
      by (simp add: retriever_loop_None over_threshold_iff)
    then obtain e where e: "retriever_loop E (normalize E user_input) memory = Some e"
      by blast
    obtain k where k: "fuel = Suc k"
      using assms(1) by (cases fuel) (simp_all add: turn_def)
    show ?thesis
      using assms(1) turn_hit [OF assms(2) e, of k] unfolding k by simp
  qed
  then show ?thesis by blast
qed

theorem no_append_after_hit_witness:
  "turn sample_env 3 (lit ''What is 2+2?'') \<lparr>memory_file = File (Inr [sample_entry]), trace = []\<rparr>
     = Some (\<lparr>memory_file = File (Inr [sample_entry]), trace = []\<rparr>,
             Inr \<lparr>messages = [sys_msg sample_env, AIMessage (lit ''4'') []],
                  retrieved_answer_found = Some True\<rparr>)"
proof -
  let ?w = "\<lparr>memory_file = File (Inr [sample_entry]), trace = []\<rparr>"
  have h2: "load_memory (memory_file ?w) = Inr [sample_entry]"
    by (simp add: load_memory_def)
  have h3: "\<exists>e \<in> set [sample_entry]. threshold
      < ratio sample_env (normalize sample_env (question e))
          (normalize sample_env (lit ''What is 2+2?''))"
    by (simp add: sample_env_def sample_entry_def normalize_def ascii_strip_def ascii_lower_def
        ascii_space_def equal_ratio_def threshold_def lit_def)
  have "retriever_loop sample_env (normalize sample_env (lit ''What is 2+2?'')) [sample_entry]
          = Some sample_entry"
    using h3 by (simp add: over_threshold_iff)
  from turn_hit [OF h2 this, of 2] obtain w' r where
    t: "turn sample_env 3 (lit ''What is 2+2?'') ?w = Some (w', r)"
    and r: "r = Inr \<lparr>messages = [sys_msg sample_env, AIMessage (lit ''4'') []],
                  retrieved_answer_found = Some True\<rparr>"
    by (simp add: sample_entry_def numeral_3_eq_3)
  from conjunct1 [OF no_append_after_hit [OF t h2], THEN mp, OF h3]
  have "w' = ?w" .
  with t r show ?thesis by simp
qed


text \<open>
  C9 (the assistant never requests tools). From the assistant node the controller
  never goes to TOOL\_EXEC. For every response \<open>r\<close> of the model, the assistant node
  logs one model invocation and appends an Assistant message holding the text of
  \<open>r\<close> and no pending tool calls, and the controller goes to SAVE. Every turn that
  misses the cache and gets a response from the model returns, with fuel for three
  node executions, after exactly one model invocation followed by the cache write.
\<close>

theorem assistant_never_requests_tools:
  "(\<forall>st'. snd (step E Assistant st w) \<noteq> Inr (Tool_executor, st'))
   \<and> (llm_invoke E (prompt_of E st) = Inr r \<longrightarrow>
        assistant E st w =
          (w\<lparr>trace := trace w @ [ModelCall (prompt_of E st)]\<rparr>,
           Inr \<lparr>messages = messages st @ [AIMessage (response_text E r) []],
                retrieved_answer_found = Some False\<rparr>)
      \<and> snd (step E Assistant st w) =
          Inr (Save_answer, \<lparr>messages = messages st @ [AIMessage (response_text E r) []],
                             retrieved_answer_found = Some False\<rparr>))
   \<and> (load_memory (memory_file w) = Inr memory
      \<and> (\<forall>e \<in> set memory.
            \<not> threshold < ratio E (normalize E (question e)) (normalize E user_input))
      \<and> llm_invoke E (prompt_of E \<lparr>messages = [HumanMessage user_input],
                                     retrieved_answer_found = Some False\<rparr>) = Inr r
      \<and> 3 \<le> fuel \<longrightarrow>
        (\<exists>w' st'. turn E fuel user_input w = Some (w', Inr st')
           \<and> trace w' = trace w @
               [ModelCall (prompt_of E \<lparr>messages = [HumanMessage user_input],
                                        retrieved_answer_found = Some False\<rparr>),
                CacheWrite \<lparr>question = user_input, answer = response_text E r\<rparr>]
           \<and> messages st' = [HumanMessage user_input, AIMessage (response_text E r) []]))"
proof (intro conjI impI allI)
  fix st'
  show "snd (step E Assistant st w) \<noteq> Inr (Tool_executor, st')"
    by (rule step_assistant_never_tools)
next
  assume "llm_invoke E (prompt_of E st) = Inr r"
  then show "assistant E st w =
          (w\<lparr>trace := trace w @ [ModelCall (prompt_of E st)]\<rparr>,
           Inr \<lparr>messages = messages st @ [AIMessage (response_text E r) []],
                retrieved_answer_found = Some False\<rparr>)"
    by (rule assistant_returns)
next
  assume "llm_invoke E (prompt_of E st) = Inr r"
  then show "snd (step E Assistant st w) =
          Inr (Save_answer, \<lparr>messages = messages st @ [AIMessage (response_text E r) []],
                             retrieved_answer_found = Some False\<rparr>)"
    by (simp del: step.simps add: step_assistant_returns)
next
  assume a: "load_memory (memory_file w) = Inr memory
      \<and> (\<forall>e \<in> set memory.
            \<not> threshold < ratio E (normalize E (question e)) (normalize E user_input))
      \<and> llm_invoke E (prompt_of E \<lparr>messages = [HumanMessage user_input],
                                     retrieved_answer_found = Some False\<rparr>) = Inr r
      \<and> 3 \<le> fuel"
  then obtain k where k: "fuel = Suc (Suc (Suc k))"
    by (metis add_Suc_right le_Suc_ex numeral_3_eq_3 plus_nat.simps(2))
  have miss: "retriever_loop E (normalize E user_input) memory = None"
    using a by (simp add: retriever_loop_None over_threshold_iff)
  have l: "load_memory (memory_file w) = Inr memory"
    and m: "llm_invoke E (prompt_of E \<lparr>messages = [HumanMessage user_input],
                                     retrieved_answer_found = Some False\<rparr>) = Inr r"
    using a by simp_all
  show "\<exists>w' st'. turn E fuel user_input w = Some (w', Inr st')
           \<and> trace w' = trace w @
               [ModelCall (prompt_of E \<lparr>messages = [HumanMessage user_input],
                                        retrieved_answer_found = Some False\<rparr>),
                CacheWrite \<lparr>question = user_input, answer = response_text E r\<rparr>]
           \<and> messages st' = [HumanMessage user_input, AIMessage (response_text E r) []]"
    unfolding k turn_miss [OF l miss m] by simp
qed

theorem assistant_never_requests_tools_witness:
  "\<exists>w' st'. turn sample_env 3 (lit ''Who wrote Hamlet?'')
                 \<lparr>memory_file = File (Inr [sample_entry]), trace = []\<rparr> = Some (w', Inr st')
     \<and> trace w' =
         [ModelCall (lit ''You are a helpful assistant.'' @ [10] @ lit ''Who wrote Hamlet?''),
          CacheWrite \<lparr>question = lit ''Who wrote Hamlet?'', answer = lit ''4''\<rparr>]
     \<and> messages st' = [HumanMessage (lit ''Who wrote Hamlet?''), AIMessage (lit ''4'') []]"
proof -
  let ?w = "\<lparr>memory_file = File (Inr [sample_entry]), trace = []\<rparr>"
  let ?q = "lit ''Who wrote Hamlet?''"
  let ?st = "\<lparr>messages = [HumanMessage ?q], retrieved_answer_found = Some False\<rparr>"
  have p: "prompt_of sample_env ?st = lit ''You are a helpful assistant.'' @ [10] @ ?q"
    by (simp add: prompt_of_def sys_msg_def sample_env_def)
  have t: "response_text sample_env (RespStr (lit ''4'')) = lit ''4''"
    by (simp add: response_text_def)
  have h: "load_memory (memory_file ?w) = Inr [sample_entry]
      \<and> (\<forall>e \<in> set [sample_entry].
            \<not> threshold < ratio sample_env (normalize sample_env (question e))
                            (normalize sample_env ?q))
      \<and> llm_invoke sample_env (prompt_of sample_env ?st) = Inr (RespStr (lit ''4''))
      \<and> (3::nat) \<le> 3"
    by (simp add: load_memory_def sample_env_def sample_entry_def normalize_def ascii_strip_def
        ascii_lower_def ascii_space_def equal_ratio_def threshold_def lit_def)
  from conjunct2 [OF conjunct2
      [OF assistant_never_requests_tools
        [of sample_env ?st ?w "RespStr (lit ''4'')" "[sample_entry]" ?q 3]], THEN mp, OF h]
  show ?thesis
    unfolding p t by simp
qed


text \<open>
  C10 (conversation returned on a hit). On a cache hit with entry \<open>e\<close>, the retriever
  leaves the outside unchanged and returns a conversation of exactly two messages,
  the system prompt message followed by an Assistant message whose content is the
  answer of \<open>e\<close>, with the flag set; no Human message is in it.
\<close>

theorem cache_hit_conversation:
  assumes "messages st \<noteq> []"
    and "load_memory (memory_file w) = Inr (pre @ e # post)"
    and "\<forall>p \<in> set pre. \<not> threshold < ratio E (normalize E (question p))
                                       (normalize E (content (last (messages st))))"
    and "threshold < ratio E (normalize E (question e))
                       (normalize E (content (last (messages st))))"
  shows "\<exists>st'. retriever E st w = (w, Inr st')
          \<and> messages st' = [SystemMessage (system_prompt E), AIMessage (answer e) []]
          \<and> length (messages st') = 2
          \<and> retrieved_answer_found st' = Some True
          \<and> \<not> list_ex is_human (messages st')"
proof -
  have "retriever_loop E (normalize E (content (last (messages st)))) (pre @ e # post) = Some e"
    using assms(3,4) by (intro retriever_loop_first) (simp_all add: over_threshold_iff)
  then have "retriever E st w =
      (w, Inr \<lparr>messages = [sys_msg E, AIMessage (answer e) []],
               retrieved_answer_found = Some True\<rparr>)"
    using assms(1,2) by (intro retriever_hit)
  then show ?thesis by (simp add: sys_msg_def)
qed

theorem cache_hit_conversation_witness:
  "\<exists>st'. retriever sample_env
            \<lparr>messages = [HumanMessage (lit ''  WHAT IS 2+2?'')], retrieved_answer_found = None\<rparr>
            \<lparr>memory_file = File (Inr [other_entry, sample_entry]), trace = []\<rparr>
          = (\<lparr>memory_file = File (Inr [other_entry, sample_entry]), trace = []\<rparr>, Inr st')
     \<and> messages st' = [SystemMessage (lit ''You are a helpful assistant.''), AIMessage (lit ''4'') []]
     \<and> \<not> list_ex is_human (messages st')"
proof -
  let ?w = "\<lparr>memory_file = File (Inr [other_entry, sample_entry]), trace = []\<rparr>"
  let ?st = "\<lparr>messages = [HumanMessage (lit ''  WHAT IS 2+2?'')], retrieved_answer_found = None\<rparr>"
  have h0: "messages ?st \<noteq> []"
    by simp
  have h1: "load_memory (memory_file ?w) = Inr ([other_entry] @ sample_entry # [])"
    by (simp add: load_memory_def)
  have h2: "\<forall>p \<in> set [other_entry]. \<not> threshold
      < ratio sample_env (normalize sample_env (question p))
          (normalize sample_env (content (last (messages ?st))))"
    by (simp add: sample_env_def other_entry_def normalize_def ascii_strip_def ascii_lower_def
        ascii_space_def equal_ratio_def threshold_def lit_def)
  have h3: "threshold < ratio sample_env (normalize sample_env (question sample_entry))
          (normalize sample_env (content (last (messages ?st))))"
    by (simp add: sample_env_def sample_entry_def normalize_def ascii_strip_def ascii_lower_def
        ascii_space_def equal_ratio_def threshold_def lit_def)
  have s: "system_prompt sample_env = lit ''You are a helpful assistant.''"
    and a: "answer sample_entry = lit ''4''"
    by (simp_all add: sample_env_def sample_entry_def)
  from cache_hit_conversation [OF h0 h1 h2 h3]
  show ?thesis
    unfolding s a by blast
qed

end
